theory Spec2Isabelle
  imports Main
begin

section \<open>Keyboard (packages/2d/src/Components/Keyboard.ts)\<close>

text \<open>
  Key names are JavaScript strings (\<open>KeyboardEvent.key\<close>). \<open>vectorFromKeys\<close> only looks
  them up in a set and upper-cases them, so their type is left open (\<open>'k\<close>) and
  \<open>String.prototype.toUpperCase\<close> is a parameter.
\<close>

text \<open>
  \<open>new Vector(new Angle(angle), magnitude)\<close>. The angles the function builds are
  \<open>Math.PI\<close>, \<open>Math.PI / 2\<close>, \<open>Math.PI / 4\<close> and sums and negations of them; the model
  counts them in units of \<open>Math.PI / 4\<close>, so \<open>half = 4\<close>, \<open>quarter = 2\<close>, \<open>eighth = 1\<close>.
\<close>

record vector =
  angle :: int
  magnitude :: int

definition half :: int where "half = 4"
definition quarter :: int where "quarter = 2"
definition eighth :: int where "eighth = 1"

text \<open>
  The test the source repeats for each direction key:
  \<open>pressedKeys.has(k) || pressedKeys.has(k.toUpperCase())\<close>.
\<close>

definition held :: "('k \<Rightarrow> 'k) \<Rightarrow> 'k set \<Rightarrow> 'k \<Rightarrow> bool" where
  "held toUpperCase pressedKeys k \<longleftrightarrow> k \<in> pressedKeys \<or> toUpperCase k \<in> pressedKeys"

definition vectorFromKeys ::
  "('k \<Rightarrow> 'k) \<Rightarrow> 'k set \<Rightarrow> 'k \<Rightarrow> 'k \<Rightarrow> 'k \<Rightarrow> 'k \<Rightarrow> vector" where
  "vectorFromKeys toUpperCase pressedKeys upKey downKey leftKey rightKey =
     (if held toUpperCase pressedKeys upKey \<and> held toUpperCase pressedKeys rightKey then
        \<lparr>angle = - eighth, magnitude = 1\<rparr>
      else if held toUpperCase pressedKeys upKey \<and> held toUpperCase pressedKeys leftKey then
        \<lparr>angle = half + eighth, magnitude = 1\<rparr>
      else if held toUpperCase pressedKeys downKey \<and> held toUpperCase pressedKeys rightKey then
        \<lparr>angle = eighth, magnitude = 1\<rparr>
      else if held toUpperCase pressedKeys downKey \<and> held toUpperCase pressedKeys leftKey then
        \<lparr>angle = quarter + eighth, magnitude = 1\<rparr>
      else if held toUpperCase pressedKeys upKey \<and> \<not> held toUpperCase pressedKeys downKey then
        \<lparr>angle = - quarter, magnitude = 1\<rparr>
      else if held toUpperCase pressedKeys downKey \<and> \<not> held toUpperCase pressedKeys upKey then
        \<lparr>angle = quarter, magnitude = 1\<rparr>
      else if held toUpperCase pressedKeys leftKey \<and> \<not> held toUpperCase pressedKeys rightKey then
        \<lparr>angle = half, magnitude = 1\<rparr>
      else if held toUpperCase pressedKeys rightKey \<and> \<not> held toUpperCase pressedKeys leftKey then
        \<lparr>angle = 0, magnitude = 1\<rparr>
      else
        \<lparr>angle = 0, magnitude = 0\<rparr>)"

text \<open>
  The claim on opposing keys speaks of a key pressed in either letter case. In those
  words: the pressed set holds the key as given, its lower-case form or its upper-case
  form.
\<close>

definition pressedEitherCase :: "('k \<Rightarrow> 'k) \<Rightarrow> ('k \<Rightarrow> 'k) \<Rightarrow> 'k set \<Rightarrow> 'k \<Rightarrow> bool" where
  "pressedEitherCase toLowerCase toUpperCase pressedKeys k \<longleftrightarrow>
     k \<in> pressedKeys \<or> toLowerCase k \<in> pressedKeys \<or> toUpperCase k \<in> pressedKeys"

text \<open>
  Key names for the examples: the letters w, s, a and d, each in lower and in upper case,
  with the two case mappings of JavaScript on them.
\<close>

datatype letter = KeyW | KeyS | KeyA | KeyD

datatype letter_key = Lower letter | Upper letter

fun upperCase :: "letter_key \<Rightarrow> letter_key" where
  "upperCase (Lower l) = Upper l"
| "upperCase (Upper l) = Upper l"

fun lowerCase :: "letter_key \<Rightarrow> letter_key" where
  "lowerCase (Lower l) = Lower l"
| "lowerCase (Upper l) = Lower l"

text \<open>
  The state the component reads and writes: the two module-level variables
  (\<open>firstKeyHasHappened\<close>, \<open>pendingFirstKeyHandlers\<close>), the document's table of event
  listeners, and the instance's own \<open>pressed\<close> set. User callbacks are opaque: they are
  named by a number, and \<open>invoked\<close> lists the ones that were called, in order; what a
  callback does when it runs is its own and not part of the component.
  The document keeps a listener once per event type (adding it again changes nothing),
  so the table is a set of (type, listener) pairs. \<open>Foreign\<close> stands for the listeners
  of anything else on the page.
\<close>

datatype listener = ProcessKeydown | ProcessKeyup | Foreign nat

record keyboard_event =
  key :: string
  repeat :: bool
  defaultPrevented :: bool

record keyboard_state =
  firstKeyHasHappened :: bool
  pendingFirstKeyHandlers :: "nat list"
  invoked :: "nat list"
  listeners :: "(string \<times> listener) set"
  pressed :: "string set"

definition useFirstKey :: "nat \<Rightarrow> keyboard_state \<Rightarrow> keyboard_state" where
  "useFirstKey handler s =
     s\<lparr>pendingFirstKeyHandlers := pendingFirstKeyHandlers s @ [handler]\<rparr>"

text \<open>The body of the component function: a fresh \<open>pressed\<close> set; nothing else is touched.\<close>

definition Keyboard :: "keyboard_state \<Rightarrow> keyboard_state" where
  "Keyboard s = s\<lparr>pressed := {}\<rparr>"

definition processKeydown ::
  "bool \<Rightarrow> keyboard_event \<Rightarrow> keyboard_state \<Rightarrow> keyboard_event \<times> keyboard_state" where
  "processKeydown preventDefault event s =
     (let event1 = (if preventDefault then event\<lparr>defaultPrevented := True\<rparr> else event);
          s1 = (if \<not> firstKeyHasHappened s
                then s\<lparr>firstKeyHasHappened := True,
                       invoked := invoked s @ pendingFirstKeyHandlers s,
                       pendingFirstKeyHandlers := []\<rparr>
                else s)
      in if repeat event then (event1, s1)
         else (event1, s1\<lparr>pressed := insert (key event) (pressed s1)\<rparr>))"

definition processKeyup ::
  "keyboard_event \<Rightarrow> keyboard_state \<Rightarrow> keyboard_event \<times> keyboard_state" where
  "processKeyup event s =
     (let event1 = event\<lparr>defaultPrevented := True\<rparr>
      in if repeat event then (event1, s)
         else (event1, s\<lparr>pressed := pressed s - {key event}\<rparr>))"

text \<open>The callbacks handed to \<open>onEnabled\<close> and \<open>onDisabled\<close>.\<close>

definition onEnabled :: "keyboard_state \<Rightarrow> keyboard_state" where
  "onEnabled s =
     s\<lparr>listeners := insert (''keyup'', ProcessKeyup)
                        (insert (''keydown'', ProcessKeydown) (listeners s))\<rparr>"

definition onDisabled :: "keyboard_state \<Rightarrow> keyboard_state" where
  "onDisabled s =
     s\<lparr>listeners := listeners s - {(''keydown'', ProcessKeydown)} - {(''keyup'', ProcessKeyup)}\<rparr>"

text \<open>
  Everything that can happen to one instance. The document delivers a key event to a
  listener only while that listener is in its table.
\<close>

datatype keyboard_action =
    Construct
  | HookEnabled
  | HookDisabled
  | DocumentKeydown keyboard_event
  | DocumentKeyup keyboard_event
  | CallUseFirstKey nat
  | CallVectorFromKeys string string string string

fun keyboard_step :: "bool \<Rightarrow> keyboard_state \<Rightarrow> keyboard_action \<Rightarrow> keyboard_state" where
  "keyboard_step pd s Construct = Keyboard s"
| "keyboard_step pd s HookEnabled = onEnabled s"
| "keyboard_step pd s HookDisabled = onDisabled s"
| "keyboard_step pd s (DocumentKeydown e) =
     (if (''keydown'', ProcessKeydown) \<in> listeners s then snd (processKeydown pd e s) else s)"
| "keyboard_step pd s (DocumentKeyup e) =
     (if (''keyup'', ProcessKeyup) \<in> listeners s then snd (processKeyup e s) else s)"
| "keyboard_step pd s (CallUseFirstKey h) = useFirstKey h s"
| "keyboard_step pd s (CallVectorFromKeys u d l r) = s"

section \<open>BaseComponent (packages/engine/src/Component.ts)\<close>

text \<open>
  Objects are named by references. A component has the fields \<open>entity\<close> and
  \<open>isEnabled\<close> and whatever state its subclass adds (\<open>behaviour\<close>).
\<close>

type_synonym ref = nat

record 's component =
  entity :: "ref option"
  isEnabled :: bool
  behaviour :: 's

text \<open>
  A subclass overrides \<open>onEntityReceived\<close>, \<open>onEnabled\<close>, \<open>onDisabled\<close>, \<open>update\<close> and
  \<open>draw\<close>. The body of such a method gets the whole component, may write any field of
  it, and either returns or throws: its result is the component as it leaves it and the
  exception, if it threw one. A body that calls another method of the component has
  that call in its own definition. \<open>BaseComponent_bodies\<close> are the bodies of the base
  class itself, all empty.
\<close>

type_synonym ('s, 'x) body = "'s component \<Rightarrow> 's component \<times> 'x option"

record ('s, 'x) bodies =
  onEntityReceived_body :: "ref option \<Rightarrow> ('s, 'x) body"
  onEnabled_body :: "('s, 'x) body"
  onDisabled_body :: "('s, 'x) body"
  update_body :: "int \<Rightarrow> ('s, 'x) body"
  draw_body :: "ref \<Rightarrow> ref \<Rightarrow> ('s, 'x) body"

definition BaseComponent_bodies :: "('s, 'x) bodies" where
  "BaseComponent_bodies =
     \<lparr>onEntityReceived_body = (\<lambda>_ c. (c, None)), onEnabled_body = (\<lambda>c. (c, None)),
      onDisabled_body = (\<lambda>c. (c, None)), update_body = (\<lambda>_ c. (c, None)),
      draw_body = (\<lambda>_ _ c. (c, None))\<rparr>"

text \<open>\<open>constructor(config = {})\<close> with \<open>this.isEnabled = config.isEnabled ?? true\<close>.\<close>

definition BaseComponent :: "bool option \<Rightarrow> 's \<Rightarrow> 's component" where
  "BaseComponent config_isEnabled s0 =
     \<lparr>entity = None,
      isEnabled = (case config_isEnabled of None \<Rightarrow> True | Some b \<Rightarrow> b),
      behaviour = s0\<rparr>"

definition receiveEntity :: "('s, 'x) bodies \<Rightarrow> ref option \<Rightarrow> ('s, 'x) body" where
  "receiveEntity b e c =
     (let c1 = c\<lparr>entity := e\<rparr>
      in onEntityReceived_body b e c1)"

definition enable :: "('s, 'x) bodies \<Rightarrow> ('s, 'x) body" where
  "enable b c =
     (let c1 = c\<lparr>isEnabled := True\<rparr>
      in onEnabled_body b c1)"

definition disable :: "('s, 'x) bodies \<Rightarrow> ('s, 'x) body" where
  "disable b c =
     (let c1 = c\<lparr>isEnabled := False\<rparr>
      in onDisabled_body b c1)"

definition update :: "('s, 'x) bodies \<Rightarrow> int \<Rightarrow> ('s, 'x) body" where
  "update b delta c = update_body b delta c"

definition draw :: "('s, 'x) bodies \<Rightarrow> ref \<Rightarrow> ref \<Rightarrow> ('s, 'x) body" where
  "draw b canvas ctx c = draw_body b canvas ctx c"

text \<open>
  \<open>getComponent(componentClass)\<close>. \<open>Entity\<close> is not among the sources, so the lookup of
  the owning entity is a parameter: it takes the entity and the class and either throws
  (\<open>Inl\<close>) or returns an instance or null.
\<close>

definition getComponent ::
  "(ref \<Rightarrow> 'k \<Rightarrow> 'x + 'i option) \<Rightarrow> 's component \<Rightarrow> 'k \<Rightarrow> 'x + 'i option" where
  "getComponent entity_getComponent c componentClass =
     (case entity c of
        None \<Rightarrow> Inr None
      | Some e \<Rightarrow> entity_getComponent e componentClass)"

text \<open>
  Modelled from the spec: \<open>Entity.getComponent\<close>, which is not among the sources. The
  spec has it scan the entity's attached components in order and return the first one
  of the class, or null. \<open>attached\<close> gives each entity its components, each with its
  class.
\<close>

definition Entity_getComponent ::
  "(ref \<Rightarrow> ('k \<times> 'i) list) \<Rightarrow> ref \<Rightarrow> 'k \<Rightarrow> 'x + 'i option" where
  "Entity_getComponent attached e componentClass =
     Inr (map_option snd (find (\<lambda>ki. fst ki = componentClass) (attached e)))"

text \<open>For the examples: entity 3 holds a body, 4, and a sprite, 5; no other entity holds anything.\<close>

definition sprites :: "ref \<Rightarrow> (string \<times> nat) list" where
  "sprites e = (if e = 3 then [(''Body'', 4), (''Sprite'', 5)] else [])"

text \<open>
  The calls a component can receive, and a run of them from left to right: the run ends
  with the first call that throws.
\<close>

datatype component_call =
    Enable
  | Disable
  | ReceiveEntity "ref option"
  | Update int
  | Draw ref ref

fun component_step :: "('s, 'x) bodies \<Rightarrow> component_call \<Rightarrow> ('s, 'x) body" where
  "component_step b Enable c = enable b c"
| "component_step b Disable c = disable b c"
| "component_step b (ReceiveEntity e) c = receiveEntity b e c"
| "component_step b (Update delta) c = update b delta c"
| "component_step b (Draw canvas ctx) c = draw b canvas ctx c"

fun component_run :: "('s, 'x) bodies \<Rightarrow> component_call list \<Rightarrow> ('s, 'x) body" where
  "component_run b [] c = (c, None)"
| "component_run b (x # xs) c =
     (case component_step b x c of
        (c1, None) \<Rightarrow> component_run b xs c1
      | (c1, Some thrown) \<Rightarrow> (c1, Some thrown))"

text \<open>
  A subclass for the examples: its state is a pair of counters, its \<open>onEnabled\<close> adds
  one to the first and its \<open>onDisabled\<close> one to the second; the other bodies are empty.
\<close>

definition counting :: "(nat \<times> nat, 'x) bodies" where
  "counting =
     \<lparr>onEntityReceived_body = (\<lambda>_ c. (c, None)),
      onEnabled_body =
        (\<lambda>c. (c\<lparr>behaviour := (Suc (fst (behaviour c)), snd (behaviour c))\<rparr>, None)),
      onDisabled_body =
        (\<lambda>c. (c\<lparr>behaviour := (fst (behaviour c), Suc (snd (behaviour c)))\<rparr>, None)),
      update_body = (\<lambda>_ c. (c, None)),
      draw_body = (\<lambda>_ _ c. (c, None))\<rparr>"

section \<open>Canvas (packages/engine/src/Component.ts, second part)\<close>

text \<open>
  \<open>child instanceof Entity\<close> and \<open>child instanceof Scene\<close> are the two cases of the
  argument type \<open>Entity | Scene\<close>.
\<close>

datatype child = EntityChild ref | SceneChild ref

text \<open>
  \<open>Scene\<close> is not among the sources. Its methods are parameters that work on the state
  of the scene objects (\<open>sceneHeap\<close>); a scene holds no reference to the canvas, so they
  leave the canvas's own fields alone.
\<close>

record 'h scene_methods =
  Scene_hasChild :: "ref \<Rightarrow> ref \<Rightarrow> 'h \<Rightarrow> bool"
  Scene_addChild :: "ref \<Rightarrow> ref \<Rightarrow> 'h \<Rightarrow> 'h"
  Scene_removeChild :: "ref \<Rightarrow> ref \<Rightarrow> 'h \<Rightarrow> 'h"

record 'h canvas =
  element :: ref
  scenes :: "ref set"
  rootScene :: ref
  activeScene :: ref
  sceneHeap :: 'h

text \<open>
  The constructor. \<open>given\<close> is the \<open>element\<close> of the configuration when there is one,
  \<open>created\<close> what \<open>document.createElement("canvas")\<close> returns, \<open>newScene\<close> what
  \<open>new Scene()\<close> returns. The run loop the constructor starts reads \<open>scenes\<close> and
  \<open>activeScene\<close> on every frame and writes neither; it is left out.
\<close>

definition Canvas :: "ref option \<Rightarrow> ref \<Rightarrow> ref \<Rightarrow> 'h \<Rightarrow> 'h canvas" where
  "Canvas given created newScene h =
     \<lparr>element = (case given of Some e \<Rightarrow> e | None \<Rightarrow> created),
      scenes = insert newScene {},
      rootScene = newScene,
      activeScene = newScene,
      sceneHeap = h\<rparr>"

definition present :: "ref \<Rightarrow> 'h canvas \<Rightarrow> 'h canvas" where
  "present scene c = c\<lparr>scenes := insert scene (scenes c), activeScene := scene\<rparr>"

definition hasChild :: "'h scene_methods \<Rightarrow> child \<Rightarrow> 'h canvas \<Rightarrow> bool" where
  "hasChild m ch c =
     (case ch of
        EntityChild e \<Rightarrow> Scene_hasChild m (activeScene c) e (sceneHeap c)
      | SceneChild s \<Rightarrow> s \<in> scenes c)"

definition addChild :: "'h scene_methods \<Rightarrow> child \<Rightarrow> 'h canvas \<Rightarrow> 'h canvas" where
  "addChild m ch c =
     (case ch of
        EntityChild e \<Rightarrow> c\<lparr>sceneHeap := Scene_addChild m (activeScene c) e (sceneHeap c)\<rparr>
      | SceneChild s \<Rightarrow> c\<lparr>scenes := insert s (scenes c)\<rparr>)"

definition removeChild :: "'h scene_methods \<Rightarrow> child \<Rightarrow> 'h canvas \<Rightarrow> 'h canvas" where
  "removeChild m ch c =
     (case ch of
        EntityChild e \<Rightarrow> c\<lparr>sceneHeap := Scene_removeChild m (activeScene c) e (sceneHeap c)\<rparr>
      | SceneChild s \<Rightarrow> c\<lparr>scenes := scenes c - {s}\<rparr>)"

datatype canvas_call = Present ref | AddChild child | RemoveChild child | HasChild child

fun canvas_step :: "'h scene_methods \<Rightarrow> 'h canvas \<Rightarrow> canvas_call \<Rightarrow> 'h canvas" where
  "canvas_step m c (Present s) = present s c"
| "canvas_step m c (AddChild ch) = addChild m ch c"
| "canvas_step m c (RemoveChild ch) = removeChild m ch c"
| "canvas_step m c (HasChild ch) = c"

definition canvas_run :: "'h scene_methods \<Rightarrow> 'h canvas \<Rightarrow> canvas_call list \<Rightarrow> 'h canvas" where
  "canvas_run m c calls = foldl (canvas_step m) c calls"

text \<open>No call of the run removes the scene that is active when the call is made.\<close>

fun spares_active :: "'h scene_methods \<Rightarrow> 'h canvas \<Rightarrow> canvas_call list \<Rightarrow> bool" where
  "spares_active m c [] = True"
| "spares_active m c (x # xs) =
     (x \<noteq> RemoveChild (SceneChild (activeScene c)) \<and> spares_active m (canvas_step m c x) xs)"

text \<open>Scene methods for a heap that holds nothing, for the concrete runs below.\<close>

definition no_scene_methods :: "unit scene_methods" where
  "no_scene_methods =
     \<lparr>Scene_hasChild = (\<lambda>_ _ _. False), Scene_addChild = (\<lambda>_ _ h. h),
      Scene_removeChild = (\<lambda>_ _ h. h)\<rparr>"

section \<open>useEntitiesAtPoint (packages/2d/src/Hooks/useEntitiesAtPoint.ts)\<close>

text \<open>
  The entities and components of \<open>@hex-engine/core\<close> are not among the sources. As the
  function uses them: an entity is a node of a tree, with its components and its
  children in insertion order; a component knows its owner (\<open>component.entity\<close>) and is a
  \<open>Geometry\<close> with a shape, or something else; a shape is its \<open>containsPoint\<close> test.
  Entities are named by references, which is what the \<open>Set\<close> of the function compares.
  Points are of any type \<open>'p\<close>.
\<close>

datatype 'p component_kind = Geometry "'p \<Rightarrow> bool" | NotGeometry

datatype 'p core_component =
  Component (component_entity: ref) (kind: "'p component_kind")

datatype 'p entity =
  Entity (ref_of: ref) (components: "'p core_component list") (children: "'p entity list")

definition isGeometry :: "'p core_component \<Rightarrow> bool" where
  "isGeometry c = (case kind c of Geometry _ \<Rightarrow> True | NotGeometry \<Rightarrow> False)"

text \<open>
  Modelled from the spec: \<open>Entity.descendants\<close>, which is not among the sources. The spec
  has it list every entity of the subtree below the entity, the entity itself left out,
  in pre-order: a parent before its children, the children in the order they were added.
\<close>

fun descendants :: "'p entity \<Rightarrow> 'p entity list" where
  "descendants (Entity r cs kids) = concat (map (\<lambda>k. k # descendants k) kids)"

text \<open>
  Modelled from the spec: \<open>Entity.getComponent\<close> of \<open>@hex-engine/core\<close>, which is not
  among the sources: the first attached component of the asked type, or null.
\<close>

definition core_getComponent ::
  "('p core_component \<Rightarrow> bool) \<Rightarrow> 'p entity \<Rightarrow> 'p core_component option" where
  "core_getComponent ofType ent = find ofType (components ent)"

text \<open>
  Modelled from the spec: the canonical draw order (\<open>useCanvasDrawOrderSort\<close> is not among
  the sources). The spec orders the entities as the traversal gives them and the
  components of one entity as they were added.
\<close>

definition canonicalDrawOrder :: "'p entity list \<Rightarrow> 'p core_component list" where
  "canonicalDrawOrder ents = concat (map components ents)"

text \<open>
  What the function takes from its surroundings: the root entity (\<open>useRootEntity()\<close>),
  the map from a world position to the local space of an entity
  (\<open>useEntityTransforms(ent).matrixForWorldPosition().inverseMutate().transformPoint\<close>),
  the sort function (\<open>useCanvasDrawOrderSort()\<close>) and the test
  \<open>Canvas.DrawOrder.isDebugOverlay\<close>. None of the four is among the sources, so each is
  a parameter.
\<close>

record 'p surroundings =
  rootEntity :: "'p entity"
  transformPoint :: "'p entity \<Rightarrow> 'p \<Rightarrow> 'p"
  drawOrderSort :: "'p entity list \<Rightarrow> 'p core_component list"
  isDebugOverlay :: "'p core_component \<Rightarrow> bool"

text \<open>The test of the first \<open>filter\<close>.\<close>

definition underCursor :: "'p surroundings \<Rightarrow> 'p \<Rightarrow> 'p entity \<Rightarrow> bool" where
  "underCursor sur worldPos ent =
     (case core_getComponent isGeometry ent of
        None \<Rightarrow> False
      | Some geometry \<Rightarrow>
          (case kind geometry of
             Geometry containsPoint \<Rightarrow> containsPoint (transformPoint sur ent worldPos)
           | NotGeometry \<Rightarrow> False))"

definition entsUnderCursor :: "'p surroundings \<Rightarrow> 'p \<Rightarrow> 'p entity list" where
  "entsUnderCursor sur worldPos =
     (let rootEnt = rootEntity sur;
          allEnts = rootEnt # descendants rootEnt
      in filter (underCursor sur worldPos) allEnts)"

text \<open>The \<open>for\<close> loop, with \<open>entsSeenSoFar\<close> and \<open>sortedEnts\<close> as accumulators.\<close>

fun collectEnts :: "ref set \<Rightarrow> ref list \<Rightarrow> 'p core_component list \<Rightarrow> ref list" where
  "collectEnts entsSeenSoFar sortedEnts [] = sortedEnts"
| "collectEnts entsSeenSoFar sortedEnts (c # cs) =
     (let ent = component_entity c
      in if ent \<notin> entsSeenSoFar
         then collectEnts (insert ent entsSeenSoFar) (sortedEnts @ [ent]) cs
         else collectEnts entsSeenSoFar sortedEnts cs)"

definition useEntitiesAtPoint :: "'p surroundings \<Rightarrow> 'p \<Rightarrow> ref list" where
  "useEntitiesAtPoint sur worldPos =
     (let ents = entsUnderCursor sur worldPos
      in if length ents < 2 then map ref_of ents
         else collectEnts {} []
                (rev (filter (isDebugOverlay sur) (drawOrderSort sur ents))))"

text \<open>
  The ranking as the specification words it, for comparison: the draw order of the
  matched entities' geometry components, only those not flagged as debug overlay,
  reversed, each entity once.
\<close>

definition rankedAsSpecified :: "'p surroundings \<Rightarrow> 'p \<Rightarrow> ref list" where
  "rankedAsSpecified sur worldPos =
     rev (remdups (map component_entity
       (filter (\<lambda>c. isGeometry c \<and> \<not> isDebugOverlay sur c)
          (drawOrderSort sur (entsUnderCursor sur worldPos)))))"

text \<open>
  A concrete scene for the examples: points are pairs of integers, no entity is moved
  (the transform is the identity), \<open>square n\<close> is the square of side \<open>n\<close> at the origin.
\<close>

definition square :: "int \<Rightarrow> int \<times> int \<Rightarrow> bool" where
  "square n p = (0 \<le> fst p \<and> fst p \<le> n \<and> 0 \<le> snd p \<and> snd p \<le> n)"

definition scene :: "(int \<times> int) core_component list \<Rightarrow> (int \<times> int) core_component list
    \<Rightarrow> ((int \<times> int) core_component \<Rightarrow> bool) \<Rightarrow> (int \<times> int) surroundings" where
  "scene componentsA componentsB debugOverlay =
     \<lparr>rootEntity = Entity 0 [] [Entity 1 componentsA [], Entity 2 componentsB []],
      transformPoint = (\<lambda>_ p. p),
      drawOrderSort = canonicalDrawOrder,
      isDebugOverlay = debugOverlay\<rparr>"

text \<open>
  The test of the claims on the hit test, in their words: the entity has a geometry
  component, and the shape of its geometry (of the first, should it carry several)
  contains the point once the point is moved into the local space of the entity.
\<close>

definition geometryContains :: "'p surroundings \<Rightarrow> 'p \<Rightarrow> 'p entity \<Rightarrow> bool" where
  "geometryContains sur worldPos ent =
     (case filter isGeometry (components ent) of
        [] \<Rightarrow> False
      | g # _ \<Rightarrow>
          (case kind g of
             Geometry contains \<Rightarrow> contains (transformPoint sur ent worldPos)
           | NotGeometry \<Rightarrow> False))"

text \<open>
  A second scene for the examples, in which the transform matters: the square of side
  100 (entity 1) sits at the origin of the world, the square of side 50 (entity 2) at
  \<open>originB\<close>, so a world position is moved by \<open>originB\<close> into the local space of
  entity 2.
\<close>

definition placedScene ::
  "int \<times> int \<Rightarrow> ((int \<times> int) core_component \<Rightarrow> bool) \<Rightarrow> (int \<times> int) surroundings" where
  "placedScene originB debugOverlay =
     \<lparr>rootEntity = Entity 0 [] [Entity 1 [Component 1 (Geometry (square 100))] [],
                               Entity 2 [Component 2 (Geometry (square 50))] []],
      transformPoint =
        (\<lambda>ent p. if ref_of ent = 2 then (fst p - fst originB, snd p - snd originB) else p),
      drawOrderSort = canonicalDrawOrder,
      isDebugOverlay = debugOverlay\<rparr>"

section \<open>Tiled (packages/2d/src/Components/Tiled.ts)\<close>

text \<open>
  The numbers of JavaScript are of a type \<open>'n\<close> that the model does not look into. What
  the file does with numbers is done by the JavaScript runtime, which is a parameter:
  \<open>Number(text)\<close>, \<open>String.prototype.trim\<close>, \<open>x - 1\<close>, the number that an integer
  literal denotes (the source writes \<open>0\<close>), the truth value of a number (for
  \<open>n || 0\<close>) and the test \<open>x === 0\<close>.
\<close>

record 'n runtime =
  Number :: "string \<Rightarrow> 'n"
  trim :: "string \<Rightarrow> string"
  minusOne :: "'n \<Rightarrow> 'n"
  ofInt :: "int \<Rightarrow> 'n"
  truthy :: "'n \<Rightarrow> bool"
  isZero :: "'n \<Rightarrow> bool"

text \<open>
  \<open>XMLSourceLoader.Element\<close> is declared outside the sources. As the file uses it, an
  element is a string, or an object with a tag name, attributes (each a number or a
  string, \<open>undefined\<close> when absent) and children that may be \<open>undefined\<close>.
\<close>

datatype 'n attr_value = NumberValue 'n | StringValue string

datatype 'n xml_element =
    Text string
  | Element string "string \<Rightarrow> 'n attr_value option" "'n xml_element list option"

definition attribute :: "'n xml_element \<Rightarrow> string \<Rightarrow> 'n attr_value option" where
  "attribute el name = (case el of Text _ \<Rightarrow> None | Element _ attrs _ \<Rightarrow> attrs name)"

definition hasTagName :: "string \<Rightarrow> 'n xml_element \<Rightarrow> bool" where
  "hasTagName tagName child =
     (case child of Text _ \<Rightarrow> False | Element t _ _ \<Rightarrow> t = tagName)"

definition getElementByTagName :: "'n xml_element \<Rightarrow> string \<Rightarrow> 'n xml_element option" where
  "getElementByTagName parent tagName =
     (case parent of
        Text _ \<Rightarrow> None
      | Element _ _ None \<Rightarrow> None
      | Element _ _ (Some kids) \<Rightarrow> find (hasTagName tagName) kids)"

text \<open>
  The code of the repository that the two components call is not among the sources:
  \<open>useType\<close>, \<open>useNewComponent\<close> with \<open>SpriteSheet\<close>, the constructor of \<open>Grid\<close> and
  \<open>Grid.setData\<close>. Each is a parameter that returns or throws. \<open>useType\<close> is given
  the name of the component and answers the exception it throws, if any; the others
  answer an exception (\<open>Inl\<close>) or their result. \<open>setData\<close> changes the grid it is
  called on; the model has it return the grid as changed.
\<close>

record 'n spriteSheet =
  url :: string
  tileWidth :: 'n
  tileHeight :: 'n

record ('x, 'n, 'sheet, 'g) collaborators =
  useType :: "string \<Rightarrow> 'x option"
  useNewSpriteSheet :: "'n spriteSheet \<Rightarrow> 'x + 'sheet"
  newGrid :: "'n \<Rightarrow> 'n \<Rightarrow> 'n \<Rightarrow> 'x + 'g"
  setData :: "'n list \<Rightarrow> 'g \<Rightarrow> 'x + 'g"

text \<open>
  What a component throws: an \<open>Error\<close> of its own with its message, or the exception
  of a collaborator, passed on.
\<close>

datatype 'x failure = Error string | Thrown 'x



text \<open>What \<open>Layer\<close> returns: the grid and the flag \<open>visible\<close>.\<close>

record 'g layer =
  grid :: 'g
  visible :: bool

text \<open>
  \<open>dataEl.children.join(" ")\<close>: a string child stands for itself, an object for
  \<open>[object Object]\<close>.
\<close>

definition toString :: "'n xml_element \<Rightarrow> string" where
  "toString child = (case child of Text s \<Rightarrow> s | Element _ _ _ \<Rightarrow> ''[object Object]'')"

fun join :: "string \<Rightarrow> string list \<Rightarrow> string" where
  "join sep [] = []"
| "join sep [x] = x"
| "join sep (x # y # ys) = x @ sep @ join sep (y # ys)"

text \<open>\<open>csv.split(",")\<close>: the pieces between the commas; an empty string gives one empty piece.\<close>

fun split :: "char \<Rightarrow> string \<Rightarrow> string list" where
  "split sep [] = [[]]"
| "split sep (c # cs) =
     (if c = sep then [] # split sep cs
      else (case split sep cs of
              [] \<Rightarrow> [[c]]
            | piece # pieces \<Rightarrow> (c # piece) # pieces))"

definition numbers :: "'n runtime \<Rightarrow> 'n xml_element list \<Rightarrow> 'n list" where
  "numbers rt kids =
     (let csv = join '' '' (map toString kids)
      in map (minusOne rt) (map (\<lambda>cell. Number rt (trim rt cell)) (split CHR '','' csv)))"

text \<open>The grave accent that three of the messages below put around a name.\<close>

definition backtick :: string where
  "backtick = [CHR 0x60]"

definition Layer ::
  "'n runtime \<Rightarrow> ('x, 'n, 'sheet, 'g) collaborators \<Rightarrow> 'n xml_element \<Rightarrow> 'x failure + 'g layer" where
  "Layer rt co layer =
     (case useType co ''Tiled.Layer'' of
        Some thrown \<Rightarrow> Inl (Thrown thrown)
      | None \<Rightarrow>
     (case layer of
        Text _ \<Rightarrow> Inl (Error ''Invalid XML data passed to Tiled.Layer'')
      | Element tag attrs kids \<Rightarrow>
          if tag \<noteq> ''layer'' then Inl (Error ''Invalid XML data passed to Tiled.Layer'')
          else
            (case attrs ''width'' of
               Some (NumberValue width) \<Rightarrow>
                 (case attrs ''height'' of
                    Some (NumberValue height) \<Rightarrow>
                      (case getElementByTagName layer ''data'' of
                         None \<Rightarrow> Inl (Error (backtick @ ''data'' @ backtick @ '' element not found in XML data passed to Tiled.Layer''))
                       | Some dataEl \<Rightarrow>
                           if attribute dataEl ''encoding'' \<noteq> Some (StringValue ''csv'') then
                             Inl (Error ''XML layer data passed to Tiled.Layer does not use csv encoding. Only csv encoding is supported at this time.'')
                           else
                             (case newGrid co width height (ofInt rt 0) of
                                Inl thrown \<Rightarrow> Inl (Thrown thrown)
                              | Inr grid0 \<Rightarrow>
                                  (case (case dataEl of
                                           Element _ _ (Some dataKids) \<Rightarrow>
                                             setData co (numbers rt dataKids) grid0
                                         | _ \<Rightarrow> Inr grid0) of
                                     Inl thrown \<Rightarrow> Inl (Thrown thrown)
                                   | Inr grid1 \<Rightarrow>
                                       Inr \<lparr>grid = grid1,
                                            visible =
                                              (case attrs ''visible'' of
                                                 Some (NumberValue v) \<Rightarrow> \<not> isZero rt v
                                               | _ \<Rightarrow> True)\<rparr>)))
                  | _ \<Rightarrow> Inl (Error (backtick @ ''height'' @ backtick @ '' attribute in XML data passed to Tiled.Layer was not a number'')))
             | _ \<Rightarrow> Inl (Error (backtick @ ''width'' @ backtick @ '' attribute in XML data passed to Tiled.Layer was not a number'')))))"





text \<open>
  The decimal numeral of a natural number, as a Tiled file writes a tile id: the digits
  of the number, most significant first, without sign or leading zero.
\<close>

definition digitChar :: "nat \<Rightarrow> char" where
  "digitChar d = ''0123456789'' ! d"

fun decimalString :: "nat \<Rightarrow> string" where
  "decimalString n =
     (if n < 10 then [digitChar n] else decimalString (n div 10) @ [digitChar (n mod 10)])"

declare decimalString.simps [simp del]

text \<open>
  A runtime and collaborators for the examples. The runtime is not JavaScript's: its
  numbers are the integers and \<open>NaN\<close>; it gives an unsigned decimal numeral up to
  \<open>2 ^ 53\<close> its value, as JavaScript does, and answers \<open>NaN\<close> to all other text; it
  trims the white space among the characters U+0000 to U+00FF. The collaborators never
  throw: the sprite sheet is its configuration, and the grid keeps what it is given.
\<close>

datatype example_number = Whole int | NotANumber

definition digitValue :: "char \<Rightarrow> nat option" where
  "digitValue c = map_of (zip ''0123456789'' [0, 1, 2, 3, 4, 5, 6, 7, 8, 9]) c"

fun readDigits :: "nat \<Rightarrow> string \<Rightarrow> nat option" where
  "readDigits acc [] = Some acc"
| "readDigits acc (c # cs) =
     (case digitValue c of None \<Rightarrow> None | Some d \<Rightarrow> readDigits (10 * acc + d) cs)"

definition readDecimal :: "string \<Rightarrow> example_number" where
  "readDecimal s =
     (if s = [] then NotANumber
      else (case readDigits 0 s of
              None \<Rightarrow> NotANumber
            | Some n \<Rightarrow> if n \<le> 2 ^ 53 then Whole (int n) else NotANumber))"

definition isSpace :: "char \<Rightarrow> bool" where
  "isSpace c \<longleftrightarrow>
     c \<in> set [CHR 0x09, CHR 0x0A, CHR 0x0B, CHR 0x0C, CHR 0x0D, CHR 0x20, CHR 0xA0]"

definition trimSpaces :: "string \<Rightarrow> string" where
  "trimSpaces s = rev (dropWhile isSpace (rev (dropWhile isSpace s)))"

definition exampleRuntime :: "example_number runtime" where
  "exampleRuntime =
     \<lparr>Number = readDecimal,
      trim = trimSpaces,
      minusOne = (\<lambda>v. case v of Whole n \<Rightarrow> Whole (n - 1) | NotANumber \<Rightarrow> NotANumber),
      ofInt = Whole,
      truthy = (\<lambda>v. v \<noteq> NotANumber \<and> v \<noteq> Whole 0),
      isZero = (\<lambda>v. v = Whole 0)\<rparr>"

record 'n example_grid =
  size_x :: 'n
  size_y :: 'n
  defaultValue :: 'n
  stored :: "'n list option"

definition exampleCollaborators ::
  "(unit, example_number, example_number spriteSheet, example_number example_grid) collaborators"
  where
  "exampleCollaborators =
     \<lparr>useType = (\<lambda>_. None),
      useNewSpriteSheet = Inr,
      newGrid = (\<lambda>w h d. Inr \<lparr>size_x = w, size_y = h, defaultValue = d, stored = None\<rparr>),
      setData = (\<lambda>ns g. Inr (g\<lparr>stored := Some ns\<rparr>))\<rparr>"






definition layerAttrs :: "string \<Rightarrow> example_number attr_value option" where
  "layerAttrs = [''width'' \<mapsto> NumberValue (Whole 3), ''height'' \<mapsto> NumberValue (Whole 1)]"

definition dataXml :: "string \<Rightarrow> example_number xml_element" where
  "dataXml encoding =
     Element ''data'' [''encoding'' \<mapsto> StringValue encoding] (Some [Text ''1,0, 3''])"

section \<open>Theorems\<close>

subsection \<open>Canvas\<close>

lemma canvas_step_keeps_active:
  "activeScene c \<in> scenes c \<Longrightarrow> x \<noteq> RemoveChild (SceneChild (activeScene c))
     \<Longrightarrow> activeScene (canvas_step m c x) \<in> scenes (canvas_step m c x)"
  by (cases x) (auto simp: present_def addChild_def removeChild_def split: child.splits)

lemma canvas_run_keeps_active:
  "activeScene c \<in> scenes c \<Longrightarrow> spares_active m c calls
     \<Longrightarrow> activeScene (canvas_run m c calls) \<in> scenes (canvas_run m c calls)"
  unfolding canvas_run_def
proof (induction calls arbitrary: c)
  case Nil
  then show ?case by simp
next
  case (Cons x xs)
  from Cons.prems have "activeScene (canvas_step m c x) \<in> scenes (canvas_step m c x)"
    by (simp add: canvas_step_keeps_active)
  with Cons show ?case by simp
qed

lemma canvas_step_rootScene:
  "rootScene (canvas_step m c x) = rootScene c"
  by (cases x) (auto simp: present_def addChild_def removeChild_def split: child.splits)

lemma canvas_run_rootScene:
  "rootScene (canvas_run m c calls) = rootScene c"
  unfolding canvas_run_def
  by (induction calls arbitrary: c) (simp_all add: canvas_step_rootScene)

lemma canvas_step_keeps_member:
  "r \<in> scenes c \<Longrightarrow> x \<noteq> RemoveChild (SceneChild r) \<Longrightarrow> r \<in> scenes (canvas_step m c x)"
  by (cases x) (auto simp: present_def addChild_def removeChild_def split: child.splits)

lemma canvas_run_keeps_member:
  "r \<in> scenes c \<Longrightarrow> RemoveChild (SceneChild r) \<notin> set calls
     \<Longrightarrow> r \<in> scenes (canvas_run m c calls)"
  unfolding canvas_run_def
proof (induction calls arbitrary: c)
  case Nil
  then show ?case by simp
next
  case (Cons x xs)
  from Cons.prems have "r \<in> scenes (canvas_step m c x)"
    by (auto intro: canvas_step_keeps_member)
  with Cons show ?case by simp
qed

text \<open>
  C1, as the code has it. After the constructor and any run of \<open>present\<close>, \<open>addChild\<close>,
  \<open>removeChild\<close> and \<open>hasChild\<close> calls in which no call removes the scene that is
  active at that moment, the active scene is a member of the scene set; and as long as
  no call removes the root scene, the root scene is the one the constructor made and is
  a member of the scene set.
\<close>

theorem canvas_scene_set_invariant:
  "(spares_active m (Canvas given created r h) calls \<longrightarrow>
      activeScene (canvas_run m (Canvas given created r h) calls)
        \<in> scenes (canvas_run m (Canvas given created r h) calls))
   \<and> (RemoveChild (SceneChild r) \<notin> set calls \<longrightarrow>
        rootScene (canvas_run m (Canvas given created r h) calls) = r
        \<and> r \<in> scenes (canvas_run m (Canvas given created r h) calls))"
proof -
  have a: "activeScene (Canvas given created r h) \<in> scenes (Canvas given created r h)"
    by (simp add: Canvas_def)
  have b: "r \<in> scenes (Canvas given created r h)" "rootScene (Canvas given created r h) = r"
    by (simp_all add: Canvas_def)
  show ?thesis
    using a b canvas_run_keeps_active [of "Canvas given created r h" m calls]
      canvas_run_keeps_member [of r "Canvas given created r h" calls m]
      canvas_run_rootScene [of m "Canvas given created r h" calls]
    by simp
qed

text \<open>
  Two runs on a canvas whose root scene is scene 1. In the first the root scene is
  removed while scene 2 is active, and scene 2 is removed once scene 3 is active: the
  active scene stays a member. In the second the root scene is never removed.
\<close>

theorem canvas_scene_set_invariant_witness:
  "spares_active no_scene_methods (Canvas None 0 1 ())
      [Present 2, AddChild (EntityChild 7), RemoveChild (SceneChild 1), Present 3,
       RemoveChild (SceneChild 2)]
   \<and> activeScene (canvas_run no_scene_methods (Canvas None 0 1 ())
      [Present 2, AddChild (EntityChild 7), RemoveChild (SceneChild 1), Present 3,
       RemoveChild (SceneChild 2)]) = 3
   \<and> scenes (canvas_run no_scene_methods (Canvas None 0 1 ())
      [Present 2, AddChild (EntityChild 7), RemoveChild (SceneChild 1), Present 3,
       RemoveChild (SceneChild 2)]) = {3}
   \<and> RemoveChild (SceneChild 1) \<notin> set [Present 2, AddChild (SceneChild 5), RemoveChild (SceneChild 2)]
   \<and> rootScene (canvas_run no_scene_methods (Canvas None 0 1 ())
        [Present 2, AddChild (SceneChild 5), RemoveChild (SceneChild 2)]) = 1
   \<and> scenes (canvas_run no_scene_methods (Canvas None 0 1 ())
        [Present 2, AddChild (SceneChild 5), RemoveChild (SceneChild 2)]) = {1, 5}"
  using canvas_scene_set_invariant [of no_scene_methods None 0 1 "()"
      "[Present 2, AddChild (EntityChild 7), RemoveChild (SceneChild 1), Present 3,
        RemoveChild (SceneChild 2)]"]
    canvas_scene_set_invariant [of no_scene_methods None 0 1 "()"
      "[Present 2, AddChild (SceneChild 5), RemoveChild (SceneChild 2)]"]
  by (simp add: canvas_run_def Canvas_def present_def addChild_def removeChild_def
        no_scene_methods_def)
     auto

text \<open>
  C1 as stated fails: \<open>removeChild\<close> deletes the scene it is given from the set and
  leaves \<open>activeScene\<close> as it is. On a new canvas with root scene 1, removing scene 1
  leaves an active scene that is no member of the (now empty) scene set.
\<close>

theorem canvas_active_scene_removed:
  "activeScene (canvas_run no_scene_methods (Canvas None 0 1 ()) [RemoveChild (SceneChild 1)])
     \<notin> scenes (canvas_run no_scene_methods (Canvas None 0 1 ()) [RemoveChild (SceneChild 1)])"
  by (simp add: canvas_run_def Canvas_def removeChild_def)

subsection \<open>BaseComponent\<close>

lemma counting_step:
  "enable counting c =
     (c\<lparr>isEnabled := True, behaviour := (Suc (fst (behaviour c)), snd (behaviour c))\<rparr>, None)"
  "disable counting c =
     (c\<lparr>isEnabled := False, behaviour := (fst (behaviour c), Suc (snd (behaviour c)))\<rparr>, None)"
  "receiveEntity counting e c = (c\<lparr>entity := e\<rparr>, None)"
  "update counting delta c = (c, None)"
  "draw counting canvas ctx c = (c, None)"
  by (simp_all add: counting_def enable_def disable_def receiveEntity_def update_def draw_def
      Let_def)

lemma counting_run:
  "behaviour (fst (component_run counting calls c)) =
     (fst (behaviour c) + count_list calls Enable, snd (behaviour c) + count_list calls Disable)
   \<and> snd (component_run counting calls c) = None"
proof (induction calls arbitrary: c)
  case Nil
  show ?case by simp
next
  case (Cons x xs)
  show ?case
    by (cases x) (simp_all add: counting_step Cons.IH)
qed

lemma run_without_disable:
  "Disable \<notin> set calls \<Longrightarrow>
   component_run (b\<lparr>onDisabled_body := h\<rparr>) calls c = component_run b calls c"
proof (induction calls arbitrary: c)
  case Nil
  show ?case by simp
next
  case (Cons x xs)
  from Cons.prems have x: "x \<noteq> Disable" and xs: "Disable \<notin> set xs" by auto
  from x have "component_step (b\<lparr>onDisabled_body := h\<rparr>) x c = component_step b x c"
    by (cases x) (simp_all add: enable_def receiveEntity_def update_def draw_def Let_def)
  with Cons.IH [OF xs] show ?case by (simp split: prod.splits option.splits)
qed

text \<open>
  C5. Whatever the state of the component (enabled already or not) and whatever the
  subclass, \<open>enable()\<close> is the assignment of true to \<open>isEnabled\<close> followed by one run of
  the body of \<open>onEnabled\<close> on the component so changed, and nothing else; \<open>disable()\<close>
  is the assignment of false followed by one run of the body of \<open>onDisabled\<close>. With the
  empty hooks of the base class the flag is true after \<open>enable()\<close> and false after
  \<open>disable()\<close>. A subclass whose hooks count their own runs has counted, after any run
  of calls on a new component, as many runs of \<open>onEnabled\<close> as there were calls of
  \<open>enable()\<close> and as many of \<open>onDisabled\<close> as calls of \<open>disable()\<close>. A run of calls
  without \<open>disable()\<close> does not depend on the body of \<open>onDisabled\<close>: it never runs.
\<close>

theorem component_hooks_fire_once:
  "enable b c = onEnabled_body b (c\<lparr>isEnabled := True\<rparr>)
   \<and> disable b c = onDisabled_body b (c\<lparr>isEnabled := False\<rparr>)
   \<and> isEnabled (fst (enable (BaseComponent_bodies :: ('s, 'x) bodies) c))
   \<and> \<not> isEnabled (fst (disable (BaseComponent_bodies :: ('s, 'x) bodies) c))
   \<and> behaviour (fst (component_run (counting :: (nat \<times> nat, 'x) bodies) calls
                        (BaseComponent cfg (0, 0))))
        = (count_list calls Enable, count_list calls Disable)
   \<and> snd (component_run (counting :: (nat \<times> nat, 'x) bodies) calls (BaseComponent cfg (0, 0)))
        = None
   \<and> (Disable \<notin> set calls \<longrightarrow>
        component_run (b\<lparr>onDisabled_body := h\<rparr>) calls c
          = component_run (b :: ('s, 'x) bodies) calls c)"
proof -
  have e: "enable b c = onEnabled_body b (c\<lparr>isEnabled := True\<rparr>)"
    by (simp add: enable_def Let_def)
  have d: "disable b c = onDisabled_body b (c\<lparr>isEnabled := False\<rparr>)"
    by (simp add: disable_def Let_def)
  have be: "isEnabled (fst (enable (BaseComponent_bodies :: ('s, 'x) bodies) c))"
    by (simp add: enable_def BaseComponent_bodies_def Let_def)
  have bd: "\<not> isEnabled (fst (disable (BaseComponent_bodies :: ('s, 'x) bodies) c))"
    by (simp add: disable_def BaseComponent_bodies_def Let_def)
  have n: "behaviour (BaseComponent cfg (0 :: nat, 0 :: nat)) = (0, 0)"
    by (simp add: BaseComponent_def)
  have cb: "behaviour (fst (component_run (counting :: (nat \<times> nat, 'x) bodies) calls
                        (BaseComponent cfg (0, 0))))
        = (count_list calls Enable, count_list calls Disable)"
    by (simp add: counting_run n)
  have cn: "snd (component_run (counting :: (nat \<times> nat, 'x) bodies) calls
                   (BaseComponent cfg (0, 0))) = None"
    by (simp add: counting_run)
  have nd: "Disable \<notin> set calls \<longrightarrow>
        component_run (b\<lparr>onDisabled_body := h\<rparr>) calls c = component_run b calls c"
    by (simp add: run_without_disable)
  from e d be bd cb cn nd show ?thesis by blast
qed

text \<open>
  The counting subclass, enabled twice with an update in between and never disabled:
  \<open>onEnabled\<close> ran twice, \<open>onDisabled\<close> not at all, and the run is the same with an
  \<open>onDisabled\<close> that throws.
\<close>

theorem component_hooks_fire_once_witness:
  "Disable \<notin> set [Enable, Update 16, Enable]
   \<and> component_run ((counting :: (nat \<times> nat, unit) bodies)\<lparr>onDisabled_body := (\<lambda>c. (c, Some ()))\<rparr>)
        [Enable, Update 16, Enable] (BaseComponent None (0, 0))
       = component_run counting [Enable, Update 16, Enable] (BaseComponent None (0, 0))
   \<and> behaviour (fst (component_run (counting :: (nat \<times> nat, unit) bodies)
        [Enable, Update 16, Enable] (BaseComponent None (0, 0)))) = (2, 0)"
  using component_hooks_fire_once
      [of "counting :: (nat \<times> nat, unit) bodies" "BaseComponent None (0, 0)"
          "[Enable, Update 16, Enable]" None "\<lambda>c. (c, Some ())"]
  by (simp del: component_run.simps)

text \<open>
  C6. \<open>getComponent\<close> returns null when the component has no entity, whatever the lookup
  of entities would do; it returns what the lookup of the owning entity returns when it
  has one; and with the lookup the specification describes it never throws.
\<close>

theorem getComponent_null_or_delegates:
  "(entity c = None \<longrightarrow> getComponent lk c k = (Inr None :: 'x + 'i option))
   \<and> (\<forall>e. entity c = Some e \<longrightarrow> getComponent lk c k = lk e k)
   \<and> \<not> isl (getComponent (Entity_getComponent attached :: ref \<Rightarrow> 'k \<Rightarrow> 'x + 'i option) c k)"
  by (simp add: getComponent_def Entity_getComponent_def split: option.splits)

text \<open>
  A new component has no entity and finds nothing; once it has received entity 3, which
  holds a body 4 and a sprite 5, it finds the sprite.
\<close>

theorem getComponent_null_or_delegates_witness:
  "entity (BaseComponent None ()) = None
   \<and> getComponent (Entity_getComponent sprites) (BaseComponent None ()) ''Sprite''
       = (Inr None :: unit + nat option)
   \<and> entity (fst (receiveEntity (BaseComponent_bodies :: (unit, unit) bodies) (Some 3)
              (BaseComponent None ()))) = Some 3
   \<and> getComponent (Entity_getComponent sprites)
        (fst (receiveEntity (BaseComponent_bodies :: (unit, unit) bodies) (Some 3)
                (BaseComponent None ()))) ''Sprite''
       = (Inr (Some 5) :: unit + nat option)"
  using getComponent_null_or_delegates
      [of "BaseComponent None ()"
          "Entity_getComponent sprites :: ref \<Rightarrow> string \<Rightarrow> unit + nat option" "''Sprite''"
          sprites]
    getComponent_null_or_delegates
      [of "fst (receiveEntity (BaseComponent_bodies :: (unit, unit) bodies) (Some 3)
                (BaseComponent None ()))"
          "Entity_getComponent sprites :: ref \<Rightarrow> string \<Rightarrow> unit + nat option" "''Sprite''"
          sprites]
  by (simp add: BaseComponent_def BaseComponent_bodies_def receiveEntity_def
        Entity_getComponent_def sprites_def Let_def)

subsection \<open>Keyboard\<close>

text \<open>
  C8. Whatever happens to the component, the table of event listeners of the document
  changes in two cases only: the callback given to \<open>onEnabled\<close> adds the keydown and the
  keyup listener, and the callback given to \<open>onDisabled\<close> removes the two. Constructing
  the component, delivering a key event, \<open>useFirstKey\<close> and \<open>vectorFromKeys\<close> leave the
  table as it is.
\<close>

theorem keyboard_listeners_only_in_hooks:
  "listeners (keyboard_step pd s a) =
     (if a = HookEnabled then
        insert (''keyup'', ProcessKeyup) (insert (''keydown'', ProcessKeydown) (listeners s))
      else if a = HookDisabled then
        listeners s - {(''keydown'', ProcessKeydown)} - {(''keyup'', ProcessKeyup)}
      else listeners s)"
  by (cases a)
     (simp_all add: Keyboard_def onEnabled_def onDisabled_def processKeydown_def
        processKeyup_def useFirstKey_def Let_def)

text \<open>
  C9, as the code has it. A key counts as pressed when the pressed set holds it as given
  or in its upper-case form; this is the test of the source, for every upper-casing
  function. If up and down are both pressed in that sense and neither left nor right
  is, the vector has magnitude 0; the same holds when left and right are both pressed
  and neither up nor down is.
\<close>

theorem vectorFromKeys_opposing_cancel:
  "((upKey \<in> p \<or> up upKey \<in> p) \<and> (downKey \<in> p \<or> up downKey \<in> p)
      \<and> leftKey \<notin> p \<and> up leftKey \<notin> p \<and> rightKey \<notin> p \<and> up rightKey \<notin> p
      \<longrightarrow> magnitude (vectorFromKeys up p upKey downKey leftKey rightKey) = 0)
   \<and> ((leftKey \<in> p \<or> up leftKey \<in> p) \<and> (rightKey \<in> p \<or> up rightKey \<in> p)
      \<and> upKey \<notin> p \<and> up upKey \<notin> p \<and> downKey \<notin> p \<and> up downKey \<notin> p
      \<longrightarrow> magnitude (vectorFromKeys up p upKey downKey leftKey rightKey) = 0)"
  by (simp add: vectorFromKeys_def held_def)

text \<open>
  With the keys w, s, a, d: W (upper case) and s pressed together cancel, and so do a and
  D (upper case).
\<close>

theorem vectorFromKeys_opposing_cancel_witness:
  "upperCase (Lower KeyW) \<in> {Upper KeyW, Lower KeyS} \<and> Lower KeyS \<in> {Upper KeyW, Lower KeyS}
   \<and> Lower KeyA \<notin> {Upper KeyW, Lower KeyS} \<and> upperCase (Lower KeyA) \<notin> {Upper KeyW, Lower KeyS}
   \<and> Lower KeyD \<notin> {Upper KeyW, Lower KeyS} \<and> upperCase (Lower KeyD) \<notin> {Upper KeyW, Lower KeyS}
   \<and> magnitude (vectorFromKeys upperCase {Upper KeyW, Lower KeyS}
        (Lower KeyW) (Lower KeyS) (Lower KeyA) (Lower KeyD)) = 0
   \<and> Lower KeyA \<in> {Lower KeyA, Upper KeyD} \<and> upperCase (Lower KeyD) \<in> {Lower KeyA, Upper KeyD}
   \<and> Lower KeyW \<notin> {Lower KeyA, Upper KeyD} \<and> upperCase (Lower KeyW) \<notin> {Lower KeyA, Upper KeyD}
   \<and> Lower KeyS \<notin> {Lower KeyA, Upper KeyD} \<and> upperCase (Lower KeyS) \<notin> {Lower KeyA, Upper KeyD}
   \<and> magnitude (vectorFromKeys upperCase {Lower KeyA, Upper KeyD}
        (Lower KeyW) (Lower KeyS) (Lower KeyA) (Lower KeyD)) = 0"
  using vectorFromKeys_opposing_cancel
      [of "Lower KeyW" "{Upper KeyW, Lower KeyS}" upperCase "Lower KeyS" "Lower KeyA" "Lower KeyD"]
    vectorFromKeys_opposing_cancel
      [of "Lower KeyW" "{Lower KeyA, Upper KeyD}" upperCase "Lower KeyS" "Lower KeyA" "Lower KeyD"]
  by simp

text \<open>
  C9 as stated fails. The keys are W (upper case), s, a, d, and w (lower case) and s are
  pressed: up and down are pressed in either letter case, left and right are not. The
  source looks for W only, finds down without up, and returns a vector of magnitude 1.
\<close>

theorem vectorFromKeys_lower_case_not_recognised:
  "pressedEitherCase lowerCase upperCase {Lower KeyW, Lower KeyS} (Upper KeyW)
   \<and> pressedEitherCase lowerCase upperCase {Lower KeyW, Lower KeyS} (Lower KeyS)
   \<and> \<not> pressedEitherCase lowerCase upperCase {Lower KeyW, Lower KeyS} (Lower KeyA)
   \<and> \<not> pressedEitherCase lowerCase upperCase {Lower KeyW, Lower KeyS} (Lower KeyD)
   \<and> vectorFromKeys upperCase {Lower KeyW, Lower KeyS} (Upper KeyW) (Lower KeyS) (Lower KeyA) (Lower KeyD)
       = \<lparr>angle = quarter, magnitude = 1\<rparr>"
  by (simp add: pressedEitherCase_def vectorFromKeys_def held_def)

subsection \<open>useEntitiesAtPoint\<close>

lemma remdups_snoc:
  "remdups (ys @ [r]) = remdups (filter (\<lambda>x. x \<noteq> r) ys) @ [r]"
  by (induction ys) auto

lemma collectEnts_eq:
  "collectEnts seen acc cs =
     acc @ rev (remdups (rev (filter (\<lambda>r. r \<notin> seen) (map component_entity cs))))"
proof (induction cs arbitrary: seen acc)
  case Nil
  show ?case by simp
next
  case (Cons c cs)
  show ?case
  proof (cases "component_entity c \<in> seen")
    case True
    then show ?thesis by (simp add: Cons.IH)
  next
    case False
    have f: "filter (\<lambda>x. x \<noteq> component_entity c)
               (rev (filter (\<lambda>r. r \<notin> seen) (map component_entity cs)))
             = rev (filter (\<lambda>r. r \<notin> insert (component_entity c) seen) (map component_entity cs))"
      by (simp add: rev_filter [symmetric] conj_commute)
    from False show ?thesis
      by (simp add: Cons.IH remdups_snoc f Let_def)
  qed
qed

lemma collectEnts_rev:
  "collectEnts {} [] (rev cs) = rev (remdups (map component_entity cs))"
  by (simp add: collectEnts_eq rev_map)

lemma last_remdups: "last (remdups xs) = last xs"
  using remdups_filter_last [of "\<lambda>_. True" xs] by simp

lemma preorder_siblings:
  "parent \<in> set (root # descendants root) \<Longrightarrow>
   children parent = earlier @ A # between @ B # later \<Longrightarrow>
   \<exists>pre mid post. root # descendants root = pre @ A # mid @ B # post"
proof (induction root)
  case (Entity r cs kids)
  show ?case
  proof (cases "parent = Entity r cs kids")
    case True
    with Entity.prems(2) have k: "kids = earlier @ A # between @ B # later" by simp
    have "Entity r cs kids # descendants (Entity r cs kids)
        = (Entity r cs kids # concat (map (\<lambda>k. k # descendants k) earlier))
          @ A # (descendants A @ concat (map (\<lambda>k. k # descendants k) between))
          @ B # (descendants B @ concat (map (\<lambda>k. k # descendants k) later))"
      by (simp add: k)
    then show ?thesis by blast
  next
    case False
    with Entity.prems(1) obtain k where k: "k \<in> set kids" "parent \<in> set (k # descendants k)"
      by auto
    from Entity.IH [OF k(1) k(2) Entity.prems(2)]
    obtain pre mid post where s: "k # descendants k = pre @ A # mid @ B # post" by blast
    from k(1) obtain l1 l2 where l: "kids = l1 @ k # l2" by (auto simp: in_set_conv_decomp)
    have "Entity r cs kids # descendants (Entity r cs kids)
        = (Entity r cs kids # concat (map (\<lambda>k. k # descendants k) l1) @ pre)
          @ A # mid @ B # (post @ concat (map (\<lambda>k. k # descendants k) l2))"
      using s by (simp add: l)
    then show ?thesis by blast
  qed
qed

lemma remdups_same_then:
  "xs \<noteq> [] \<Longrightarrow> set xs \<subseteq> {a} \<Longrightarrow> a \<notin> set ys \<Longrightarrow> remdups (xs @ ys) = a # remdups ys"
proof (induction xs)
  case Nil
  then show ?case by simp
next
  case (Cons x xs)
  from Cons.prems have x: "x = a" by simp
  show ?case
  proof (cases "xs = []")
    case True
    with Cons.prems x show ?thesis by simp
  next
    case False
    with Cons.prems have "a \<in> set xs" by (cases xs) auto
    moreover from False Cons have "remdups (xs @ ys) = a # remdups ys" by simp
    ultimately show ?thesis using x by simp
  qed
qed

lemma owners_of_kept:
  "\<forall>c \<in> set cs. component_entity c = r \<Longrightarrow> set (map component_entity (filter P cs)) \<subseteq> {r}"
  by auto

lemma find_filter:
  "find P xs = (case filter P xs of [] \<Rightarrow> None | x # _ \<Rightarrow> Some x)"
  by (induction xs) auto

lemma underCursor_geometryContains:
  "underCursor sur p e = geometryContains sur p e"
  by (simp add: underCursor_def geometryContains_def core_getComponent_def find_filter
      split: list.splits)

text \<open>
  C2. Let A and B be children of one entity of the tree, A added before B; let each have
  a geometry that contains the point, moved into its local space, and let no other
  entity of the tree have one; let no two entities of the tree share a reference and
  the components of A and of B name their owner. Of the two collaborators that are not
  among the sources the theorem asks what the scenario takes for granted: the sort draws
  the components of A before those of B (as the canonical draw order does), and
  \<open>Canvas.DrawOrder.isDebugOverlay\<close> accepts a component of A and a component of B.
  Then the result is B, then A.
\<close>

theorem hit_test_ranking:
  assumes parent: "parent \<in> set (rootEntity sur # descendants (rootEntity sur))"
    and siblings: "children parent = earlier @ A # between @ B # later"
    and refs: "distinct (map ref_of (rootEntity sur # descendants (rootEntity sur)))"
    and only: "\<forall>e \<in> set (rootEntity sur # descendants (rootEntity sur)).
                 geometryContains sur P e \<longleftrightarrow> (e = A \<or> e = B)"
    and order: "filter (isDebugOverlay sur) (drawOrderSort sur [A, B])
                  = filter (isDebugOverlay sur) (components A)
                    @ filter (isDebugOverlay sur) (components B)"
    and ownA: "\<forall>c \<in> set (components A). component_entity c = ref_of A"
    and ownB: "\<forall>c \<in> set (components B). component_entity c = ref_of B"
    and dbgA: "\<exists>c \<in> set (components A). isDebugOverlay sur c"
    and dbgB: "\<exists>c \<in> set (components B). isDebugOverlay sur c"
  shows "useEntitiesAtPoint sur P = [ref_of B, ref_of A]"
proof -
  let ?all = "rootEntity sur # descendants (rootEntity sur)"
  from preorder_siblings [OF parent siblings]
  obtain pre mid post where all: "?all = pre @ A # mid @ B # post" by blast
  from refs have d: "distinct ?all" by (rule distinct_map [THEN iffD1, THEN conjunct1])
  from d all have notin: "A \<notin> set pre" "A \<notin> set mid" "A \<notin> set post"
    "B \<notin> set pre" "B \<notin> set mid" "B \<notin> set post" "A \<noteq> B"
    by auto
  from refs all have rne: "ref_of A \<noteq> ref_of B" by auto
  from only have only': "\<forall>e \<in> set ?all. underCursor sur P e \<longleftrightarrow> (e = A \<or> e = B)"
    by (simp only: underCursor_geometryContains)
  have none: "\<And>zs. set zs \<subseteq> set ?all \<Longrightarrow> A \<notin> set zs \<Longrightarrow> B \<notin> set zs
                \<Longrightarrow> filter (underCursor sur P) zs = []"
    using only' by (auto simp: filter_empty_conv)
  have fpre: "filter (underCursor sur P) pre = []"
    using notin by (intro none) (auto simp: all)
  have fmid: "filter (underCursor sur P) mid = []"
    using notin by (intro none) (auto simp: all)
  have fpost: "filter (underCursor sur P) post = []"
    using notin by (intro none) (auto simp: all)
  have uA: "underCursor sur P A" and uB: "underCursor sur P B"
    using only' by (auto simp: all)
  have ents: "entsUnderCursor sur P = [A, B]"
    unfolding entsUnderCursor_def Let_def all
    by (simp add: fpre fmid fpost uA uB)
  let ?ka = "filter (isDebugOverlay sur) (components A)"
  let ?kb = "filter (isDebugOverlay sur) (components B)"
  from dbgA have ka: "map component_entity ?ka \<noteq> []" by (auto simp: filter_empty_conv)
  from dbgB have kb: "map component_entity ?kb \<noteq> []" by (auto simp: filter_empty_conv)
  have sa: "set (map component_entity ?ka) \<subseteq> {ref_of A}"
    using ownA by (rule owners_of_kept)
  have sb: "set (map component_entity ?kb) \<subseteq> {ref_of B}"
    using ownB by (rule owners_of_kept)
  from sb rne have ab: "ref_of A \<notin> set (map component_entity ?kb)" by auto
  have "remdups (map component_entity ?kb @ []) = ref_of B # remdups []"
    using kb sb by (intro remdups_same_then) auto
  then have rb: "remdups (map component_entity ?kb) = [ref_of B]" by simp
  have "remdups (map component_entity ?ka @ map component_entity ?kb)
          = ref_of A # remdups (map component_entity ?kb)"
    using ka sa ab by (rule remdups_same_then)
  with rb have r: "remdups (map component_entity (?ka @ ?kb)) = [ref_of A, ref_of B]"
    by simp
  have "useEntitiesAtPoint sur P
          = collectEnts {} [] (rev (filter (isDebugOverlay sur) (drawOrderSort sur [A, B])))"
    by (simp add: useEntitiesAtPoint_def Let_def ents)
  also have "\<dots> = collectEnts {} [] (rev (?ka @ ?kb))"
    by (simp only: order)
  also have "\<dots> = rev (remdups (map component_entity (?ka @ ?kb)))"
    by (rule collectEnts_rev)
  finally show ?thesis by (simp only: r) simp
qed

text \<open>
  The scenario of the specification, with B moved: A (entity 1) is a square of side 100
  at the origin, B (entity 2) a square of side 50 at (30, 30), added after A to the same
  parent (entity 0); the sort is the canonical draw order and the geometry components
  are the debug overlays. The world position (40, 40) is (10, 10) in the local space of
  B and gives B, A.
\<close>

theorem hit_test_ranking_witness:
  "useEntitiesAtPoint (placedScene (30, 30) isGeometry) (40, 40) = [2, 1]"
  using hit_test_ranking [of "Entity 0 [] [Entity 1 [Component 1 (Geometry (square 100))] [],
                           Entity 2 [Component 2 (Geometry (square 50))] []]"
      "placedScene (30, 30) isGeometry"
      "[]" "Entity 1 [Component 1 (Geometry (square 100))] []"
      "[]" "Entity 2 [Component 2 (Geometry (square 50))] []" "[]" "(40, 40)"]
  by (simp add: placedScene_def geometryContains_def isGeometry_def square_def
      canonicalDrawOrder_def)

text \<open>
  C3, as the code has it. When two or more entities are under the point, the function
  hands exactly those entities to the draw-order sort, keeps of the components it
  returns the ones that \<open>Canvas.DrawOrder.isDebugOverlay\<close> accepts (geometry or not),
  and returns the owners of the kept components in reverse draw order, each owner once:
  this is the reversed draw-order list of owners with each owner at its last place. So
  when a component is kept, the owner of the last-drawn kept component comes first. The
  result never names an entity twice.
\<close>

theorem hit_test_keeps_debug_overlays_reversed:
  "(2 \<le> length (entsUnderCursor sur p) \<longrightarrow>
      useEntitiesAtPoint sur p =
        rev (remdups (map component_entity
          (filter (isDebugOverlay sur) (drawOrderSort sur (entsUnderCursor sur p))))))
   \<and> (2 \<le> length (entsUnderCursor sur p)
        \<and> filter (isDebugOverlay sur) (drawOrderSort sur (entsUnderCursor sur p)) \<noteq> [] \<longrightarrow>
        hd (useEntitiesAtPoint sur p) =
          component_entity (last (filter (isDebugOverlay sur)
             (drawOrderSort sur (entsUnderCursor sur p)))))
   \<and> distinct (useEntitiesAtPoint sur p)"
proof -
  let ?kept = "filter (isDebugOverlay sur) (drawOrderSort sur (entsUnderCursor sur p))"
  have a: "2 \<le> length (entsUnderCursor sur p) \<Longrightarrow>
      useEntitiesAtPoint sur p = rev (remdups (map component_entity ?kept))"
    by (simp add: useEntitiesAtPoint_def Let_def collectEnts_rev)
  have b: "2 \<le> length (entsUnderCursor sur p) \<Longrightarrow> ?kept \<noteq> [] \<Longrightarrow>
      hd (useEntitiesAtPoint sur p) = component_entity (last ?kept)"
    by (simp add: a hd_rev last_remdups last_map)
  have c: "distinct (useEntitiesAtPoint sur p)"
  proof (cases "2 \<le> length (entsUnderCursor sur p)")
    case True
    then show ?thesis by (simp add: a)
  next
    case False
    then have "length (map ref_of (entsUnderCursor sur p)) \<le> 1" by simp
    then have "distinct (map ref_of (entsUnderCursor sur p))"
      by (cases "map ref_of (entsUnderCursor sur p)") auto
    with False show ?thesis by (simp add: useEntitiesAtPoint_def Let_def)
  qed
  from a b c show ?thesis by blast
qed

text \<open>
  The two squares again; A also has a component that is no geometry, and exactly the
  components that are no geometry count as debug overlays. Both entities are under
  (10, 10); the one kept component belongs to A, and the result is A alone.
\<close>

theorem hit_test_keeps_debug_overlays_reversed_witness:
  "2 \<le> length (entsUnderCursor
       (scene [Component 1 (Geometry (square 100)), Component 1 NotGeometry]
              [Component 2 (Geometry (square 50))] (\<lambda>c. \<not> isGeometry c)) (10, 10))
   \<and> useEntitiesAtPoint
       (scene [Component 1 (Geometry (square 100)), Component 1 NotGeometry]
              [Component 2 (Geometry (square 50))] (\<lambda>c. \<not> isGeometry c)) (10, 10) = [1]"
  using hit_test_keeps_debug_overlays_reversed
    [of "scene [Component 1 (Geometry (square 100)), Component 1 NotGeometry]
               [Component 2 (Geometry (square 50))] (\<lambda>c. \<not> isGeometry c)" "(10, 10)"]
  by (simp add: entsUnderCursor_def scene_def underCursor_def core_getComponent_def
      isGeometry_def square_def canonicalDrawOrder_def Let_def)

text \<open>
  C3 as stated fails. In the scene of the witness the function returns A alone, while
  the ranking as the specification words it (geometry components that are not debug
  overlays, reversed) is B, A.
\<close>

theorem hit_test_filter_is_debug_overlay:
  "useEntitiesAtPoint
     (scene [Component 1 (Geometry (square 100)), Component 1 NotGeometry]
            [Component 2 (Geometry (square 50))] (\<lambda>c. \<not> isGeometry c))
     (10, 10) = [1]
   \<and> rankedAsSpecified
     (scene [Component 1 (Geometry (square 100)), Component 1 NotGeometry]
            [Component 2 (Geometry (square 50))] (\<lambda>c. \<not> isGeometry c))
     (10, 10) = [2, 1]"
  by (simp add: useEntitiesAtPoint_def rankedAsSpecified_def entsUnderCursor_def scene_def
      underCursor_def core_getComponent_def isGeometry_def square_def canonicalDrawOrder_def
      Let_def)

text \<open>
  C4. If fewer than two entities of the tree (the root and its descendants) have a
  geometry that contains the point, moved into the local space of the entity, the
  function returns exactly those entities, in tree order, whatever the sort and the
  debug-overlay test are; if no entity has one, it returns the empty list.
\<close>

theorem hit_test_short_circuit:
  "(length (filter (geometryContains sur p) (rootEntity sur # descendants (rootEntity sur))) < 2
      \<longrightarrow> useEntitiesAtPoint sur p =
        map ref_of (filter (geometryContains sur p)
                      (rootEntity sur # descendants (rootEntity sur))))
   \<and> ((\<forall>e \<in> set (rootEntity sur # descendants (rootEntity sur)). \<not> geometryContains sur p e)
        \<longrightarrow> useEntitiesAtPoint sur p = [])"
proof -
  have f: "filter (underCursor sur p) = filter (geometryContains sur p)"
    by (rule ext) (simp add: underCursor_geometryContains [abs_def])
  have n: "(\<forall>e \<in> set (rootEntity sur # descendants (rootEntity sur)). \<not> geometryContains sur p e)
     \<Longrightarrow> filter (geometryContains sur p) (rootEntity sur # descendants (rootEntity sur)) = []"
    by (simp add: filter_empty_conv)
  show ?thesis
    using n by (auto simp: useEntitiesAtPoint_def entsUnderCursor_def Let_def f)
qed

text \<open>
  The square of side 50 sits at (200, 0), and no component is a debug overlay. The world
  position (210, 10) is (10, 10) in the local space of entity 2 and outside the square of
  entity 1: the result is entity 2. The world position (10, 10) is in the square of
  entity 1 and, moved, outside that of entity 2: the result is entity 1. The position
  (500, 500) is in neither.
\<close>

theorem hit_test_short_circuit_witness:
  "filter (geometryContains (placedScene (200, 0) (\<lambda>c. False)) (210, 10))
     (rootEntity (placedScene (200, 0) (\<lambda>c. False))
      # descendants (rootEntity (placedScene (200, 0) (\<lambda>c. False))))
     = [Entity 2 [Component 2 (Geometry (square 50))] []]
   \<and> useEntitiesAtPoint (placedScene (200, 0) (\<lambda>c. False)) (210, 10) = [2]
   \<and> useEntitiesAtPoint (placedScene (200, 0) (\<lambda>c. False)) (10, 10) = [1]
   \<and> useEntitiesAtPoint (placedScene (200, 0) (\<lambda>c. False)) (500, 500) = []"
  using hit_test_short_circuit [of "placedScene (200, 0) (\<lambda>c. False)" "(210, 10)"]
    hit_test_short_circuit [of "placedScene (200, 0) (\<lambda>c. False)" "(10, 10)"]
    hit_test_short_circuit [of "placedScene (200, 0) (\<lambda>c. False)" "(500, 500)"]
  by (simp add: placedScene_def geometryContains_def isGeometry_def square_def)

subsection \<open>Tiled\<close>










lemma split_no_separator: "sep \<notin> set x \<Longrightarrow> split sep x = [x]"
  by (induction x) auto

lemma split_append:
  "sep \<notin> set x \<Longrightarrow> split sep (x @ sep # rest) = x # split sep rest"
  by (induction x) auto

lemma split_join:
  "cells \<noteq> [] \<Longrightarrow> \<forall>cell \<in> set cells. sep \<notin> set cell \<Longrightarrow>
   split sep (join [sep] cells) = cells"
proof (induction "[sep]" cells rule: join.induct)
  case 1
  then show ?case by simp
next
  case (2 x)
  then show ?case by (simp add: split_no_separator)
next
  case (3 x y ys)
  then show ?case by (simp add: split_append)
qed

lemma cells_minus_one:
  "list_all2 (\<lambda>cell n. n \<le> 2 ^ 53 \<and> trim rt cell = decimalString n) cells ns \<Longrightarrow>
   \<forall>n \<le> 2 ^ 53. Number rt (decimalString n) = ofInt rt (int n) \<Longrightarrow>
   \<forall>n \<le> 2 ^ 53. minusOne rt (ofInt rt (int n)) = ofInt rt (int n - 1) \<Longrightarrow>
   map (minusOne rt) (map (\<lambda>cell. Number rt (trim rt cell)) cells)
     = map (\<lambda>n. ofInt rt (int n - 1)) ns"
  by (induction rule: list_all2_induct) simp_all

text \<open>
  C10. Let the runtime read the decimal numeral of every natural number up to \<open>2 ^ 53\<close>
  as that number and subtract one from it exactly, as JavaScript does. Let the layer be
  accepted, and let the text of its \<open>data\<close> element (the children joined by a blank)
  be cells separated by commas, each cell, trimmed, the decimal numeral of a number up
  to \<open>2 ^ 53\<close>. Then the grid the layer returns is the new grid of the layer's width
  and height after \<open>setData\<close> with, cell by cell and in order, the number of the cell
  minus one. A cell 0 gives -1.
\<close>

theorem Layer_grid_cells_minus_one:
  assumes reads: "\<forall>n \<le> 2 ^ 53. Number rt (decimalString n) = ofInt rt (int n)"
    and subtracts: "\<forall>n \<le> 2 ^ 53. minusOne rt (ofInt rt (int n)) = ofInt rt (int n - 1)"
    and accepted: "Layer rt co l = Inr r"
    and dataEl: "getElementByTagName l ''data'' = Some (Element t a (Some kids))"
    and csv: "join '' '' (map toString kids) = join '','' cells"
    and cells: "cells \<noteq> []" "\<forall>cell \<in> set cells. CHR '','' \<notin> set cell"
    and numerals: "list_all2 (\<lambda>cell n. n \<le> 2 ^ 53 \<and> trim rt cell = decimalString n) cells ns"
  shows "\<exists>w h g. attribute l ''width'' = Some (NumberValue w)
           \<and> attribute l ''height'' = Some (NumberValue h)
           \<and> newGrid co w h (ofInt rt 0) = Inr g
           \<and> setData co (map (\<lambda>n. ofInt rt (int n - 1)) ns) g = Inr (grid r)"
proof -
  from cells have "split CHR '','' (join '','' cells) = cells"
    by (rule split_join)
  with csv have "numbers rt kids
      = map (minusOne rt) (map (\<lambda>cell. Number rt (trim rt cell)) cells)"
    by (simp add: numbers_def Let_def)
  with cells_minus_one [OF numerals reads subtracts]
  have n: "numbers rt kids = map (\<lambda>n. ofInt rt (int n - 1)) ns" by simp
  from accepted dataEl
  have "\<exists>w h g. attribute l ''width'' = Some (NumberValue w)
           \<and> attribute l ''height'' = Some (NumberValue h)
           \<and> newGrid co w h (ofInt rt 0) = Inr g
           \<and> setData co (numbers rt kids) g = Inr (grid r)"
    by (auto simp: Layer_def attribute_def
        split: xml_element.splits option.splits attr_value.splits if_splits sum.splits)
  with n show ?thesis by simp
qed

lemma readDigits_snoc:
  "readDigits acc (xs @ [c]) =
     (case readDigits acc xs of
        None \<Rightarrow> None
      | Some v \<Rightarrow> (case digitValue c of None \<Rightarrow> None | Some d \<Rightarrow> Some (10 * v + d)))"
  by (induction xs arbitrary: acc) (auto split: option.splits)

lemma digitValue_digitChar: "d < 10 \<Longrightarrow> digitValue (digitChar d) = Some d"
proof -
  assume "d < 10"
  then have "d \<in> {0, 1, 2, 3, 4, 5, 6, 7, 8, 9}" by auto
  then show ?thesis by (auto simp: digitValue_def digitChar_def)
qed

lemma readDigits_decimalString: "readDigits 0 (decimalString n) = Some n"
proof (induction n rule: decimalString.induct)
  case (1 n)
  show ?case
  proof (cases "n < 10")
    case True
    then show ?thesis
      by (subst decimalString.simps) (simp add: digitValue_digitChar)
  next
    case False
    with 1 have ih: "readDigits 0 (decimalString (n div 10)) = Some (n div 10)" by simp
    from False show ?thesis
      by (subst decimalString.simps)
         (simp add: readDigits_snoc ih digitValue_digitChar)
  qed
qed

lemma decimalString_not_empty: "decimalString n \<noteq> []"
  by (subst decimalString.simps) simp

lemma exampleRuntime_reads:
  "\<forall>n \<le> 2 ^ 53. Number exampleRuntime (decimalString n) = ofInt exampleRuntime (int n)"
  by (simp add: exampleRuntime_def readDecimal_def readDigits_decimalString
      decimalString_not_empty)

lemma exampleRuntime_subtracts:
  "\<forall>n \<le> 2 ^ 53. minusOne exampleRuntime (ofInt exampleRuntime (int n))
      = ofInt exampleRuntime (int n - 1)"
  by (simp add: exampleRuntime_def)

text \<open>
  A layer of three cells, \<open>1,0, 3\<close>, with the runtime and the grid of the examples: the
  grid gets 0, -1 and 2.
\<close>

theorem Layer_grid_cells_minus_one_witness:
  "Layer exampleRuntime exampleCollaborators (Element ''layer'' layerAttrs (Some [dataXml ''csv'']))
     = Inr \<lparr>grid = \<lparr>size_x = Whole 3, size_y = Whole 1, defaultValue = Whole 0,
                    stored = Some [Whole 0, Whole (- 1), Whole 2]\<rparr>, visible = True\<rparr>"
proof -
  let ?l = "Element ''layer'' layerAttrs (Some [dataXml ''csv''])"
  let ?g = "\<lparr>size_x = Whole 3, size_y = Whole 1, defaultValue = Whole 0,
              stored = None :: example_number list option\<rparr>"
  have 1: "Layer exampleRuntime exampleCollaborators ?l =
     Inr \<lparr>grid = ?g\<lparr>stored := Some (numbers exampleRuntime [Text ''1,0, 3''])\<rparr>, visible = True\<rparr>"
    by (simp add: Layer_def layerAttrs_def dataXml_def getElementByTagName_def hasTagName_def
        attribute_def exampleCollaborators_def exampleRuntime_def)
  have 2: "getElementByTagName ?l ''data''
             = Some (Element ''data'' [''encoding'' \<mapsto> StringValue ''csv''] (Some [Text ''1,0, 3'']))"
    by (simp add: getElementByTagName_def hasTagName_def dataXml_def)
  have 3: "join '' '' (map toString [Text ''1,0, 3'' :: example_number xml_element])
             = join '','' [''1'', ''0'', '' 3'']"
    by (simp add: toString_def)
  have 4: "[''1'', ''0'', '' 3''] \<noteq> []" "\<forall>cell \<in> set [''1'', ''0'', '' 3'']. CHR '','' \<notin> set cell"
    by simp_all
  have 5: "list_all2 (\<lambda>cell n. n \<le> 2 ^ 53 \<and> trim exampleRuntime cell = decimalString n)
             [''1'', ''0'', '' 3''] [1, 0, 3]"
    by (simp add: exampleRuntime_def trimSpaces_def isSpace_def decimalString.simps
        digitChar_def)
  from Layer_grid_cells_minus_one
         [OF exampleRuntime_reads exampleRuntime_subtracts 1 2 3 4 5]
  have "setData exampleCollaborators [Whole 0, Whole (- 1), Whole 2] ?g
          = Inr (?g\<lparr>stored := Some (numbers exampleRuntime [Text ''1,0, 3''])\<rparr>)"
    by (simp add: layerAttrs_def attribute_def exampleCollaborators_def exampleRuntime_def)
  then have "numbers exampleRuntime [Text ''1,0, 3''] = [Whole 0, Whole (- 1), Whole 2]"
    by (simp add: exampleCollaborators_def)
  with 1 show ?thesis by simp
qed

end
